theory Spec2Isabelle
  imports Main
begin

section \<open>The nmcli module: data model\<close>

text \<open>
  A shallow embedding of \<^verbatim>\<open>lib/ansible/modules/net_tools/nmcli.py\<close>: the class
  \<^verbatim>\<open>Nmcli\<close> and the function \<^verbatim>\<open>main\<close>. The model starts where the imports of the
  dbus and NetworkManager bindings have succeeded and \<^verbatim>\<open>get_bin_path\<close> has found the
  nmcli binary; the path it found is the field \<open>nmcli_bin\<close>.
\<close>

text \<open>The \<^verbatim>\<open>choices\<close> of the parameters \<^verbatim>\<open>state\<close> and \<^verbatim>\<open>type\<close> in the argument spec.\<close>

datatype conn_state = Present | Absent

datatype conn_type = Ethernet | Team | TeamSlave | Bond | BondSlave | Bridge | Vlan | Generic

fun type_str :: "conn_type \<Rightarrow> string" where
  "type_str Ethernet = ''ethernet''"
| "type_str Team = ''team''"
| "type_str TeamSlave = ''team-slave''"
| "type_str Bond = ''bond''"
| "type_str BondSlave = ''bond-slave''"
| "type_str Bridge = ''bridge''"
| "type_str Vlan = ''vlan''"
| "type_str Generic = ''generic''"

text \<open>
  \<^verbatim>\<open>module.params\<close> after the argument spec has been applied: every parameter
  with \<^verbatim>\<open>default=None\<close> is an option, \<^verbatim>\<open>dns4\<close> is a list and \<^verbatim>\<open>dns6\<close> a string.
\<close>

record params =
  p_state :: conn_state
  p_autoconnect :: "bool option"
  p_conn_name :: "string option"
  p_master :: "string option"
  p_ifname :: "string option"
  p_type :: "conn_type option"
  p_ip4 :: "string option"
  p_gw4 :: "string option"
  p_dns4 :: "string list option"
  p_ip6 :: "string option"
  p_gw6 :: "string option"
  p_dns6 :: "string option"
  p_mtu :: "string option"
  p_stp :: "bool option"
  p_priority :: "string option"
  p_mode :: "string option"
  p_miimon :: "string option"
  p_primary :: "string option"
  p_downdelay :: "string option"
  p_updelay :: "string option"
  p_arp_interval :: "string option"
  p_arp_ip_target :: "string option"
  p_slavepriority :: "string option"
  p_forwarddelay :: "string option"
  p_hellotime :: "string option"
  p_maxage :: "string option"
  p_ageingtime :: "string option"
  p_mac :: "string option"
  p_vlanid :: "string option"
  p_vlandev :: "string option"
  p_flags :: "string option"
  p_ingress :: "string option"
  p_egress :: "string option"

text \<open>The attributes of an \<^verbatim>\<open>Nmcli\<close> object, as \<^verbatim>\<open>__init__\<close> sets them.\<close>

record Nmcli =
  state :: conn_state
  autoconnect :: "bool option"
  conn_name :: "string option"
  master :: "string option"
  ifname :: "string option"
  type :: "conn_type option"
  ip4 :: "string option"
  gw4 :: "string option"
  dns4 :: "string option"
  ip6 :: "string option"
  gw6 :: "string option"
  dns6 :: "string option"
  mtu :: "string option"
  stp :: "bool option"
  priority :: "string option"
  mode :: "string option"
  miimon :: "string option"
  primary :: "string option"
  downdelay :: "string option"
  updelay :: "string option"
  arp_interval :: "string option"
  arp_ip_target :: "string option"
  slavepriority :: "string option"
  forwarddelay :: "string option"
  hellotime :: "string option"
  maxage :: "string option"
  ageingtime :: "string option"
  mac :: "string option"
  vlanid :: "string option"
  vlandev :: "string option"
  flags :: "string option"
  ingress :: "string option"
  egress :: "string option"
  nmcli_bin :: string

text \<open>Python's \<^verbatim>\<open>' '.join(xs)\<close>.\<close>

fun space_join :: "string list \<Rightarrow> string" where
  "space_join [] = []"
| "space_join [x] = x"
| "space_join (x # y # ys) = x @ '' '' @ space_join (y # ys)"

text \<open>
  \<^verbatim>\<open>' '.join(module.params['dns4']) if module.params.get('dns4') else None\<close>:
  a missing and an empty list are both falsy.
\<close>

definition init_dns4 :: "string list option \<Rightarrow> string option" where
  "init_dns4 d = (case d of None \<Rightarrow> None | Some xs \<Rightarrow> (if xs = [] then None else Some (space_join xs)))"

definition init :: "string \<Rightarrow> params \<Rightarrow> Nmcli" where
  "init bin p =
     \<lparr> state = p_state p, autoconnect = p_autoconnect p, conn_name = p_conn_name p,
       master = p_master p, ifname = p_ifname p, type = p_type p,
       ip4 = p_ip4 p, gw4 = p_gw4 p, dns4 = init_dns4 (p_dns4 p),
       ip6 = p_ip6 p, gw6 = p_gw6 p, dns6 = p_dns6 p,
       mtu = p_mtu p, stp = p_stp p, priority = p_priority p, mode = p_mode p,
       miimon = p_miimon p, primary = p_primary p, downdelay = p_downdelay p,
       updelay = p_updelay p, arp_interval = p_arp_interval p,
       arp_ip_target = p_arp_ip_target p, slavepriority = p_slavepriority p,
       forwarddelay = p_forwarddelay p, hellotime = p_hellotime p, maxage = p_maxage p,
       ageingtime = p_ageingtime p, mac = p_mac p, vlanid = p_vlanid p,
       vlandev = p_vlandev p, flags = p_flags p, ingress = p_ingress p,
       egress = p_egress p, nmcli_bin = bin \<rparr>"

text \<open>
  The parameters of a play that gives only \<^verbatim>\<open>conn_name\<close> and \<^verbatim>\<open>state\<close>:
  the defaults of the argument spec.
\<close>

definition default_params :: "string \<Rightarrow> conn_state \<Rightarrow> params" where
  "default_params n st =
     \<lparr> p_state = st, p_autoconnect = None, p_conn_name = Some n, p_master = None,
       p_ifname = None, p_type = None, p_ip4 = None, p_gw4 = None, p_dns4 = None,
       p_ip6 = None, p_gw6 = None, p_dns6 = None, p_mtu = None, p_stp = Some True,
       p_priority = Some ''128'', p_mode = Some ''balance-rr'', p_miimon = None,
       p_primary = None, p_downdelay = None, p_updelay = None, p_arp_interval = None,
       p_arp_ip_target = None, p_slavepriority = Some ''32'', p_forwarddelay = Some ''15'',
       p_hellotime = Some ''2'', p_maxage = Some ''20'', p_ageingtime = Some ''300'',
       p_mac = None, p_vlanid = None, p_vlandev = None, p_flags = None, p_ingress = None,
       p_egress = None \<rparr>"

section \<open>Command synthesis\<close>

text \<open>
  An element of a command list. The source appends attributes that may be \<^verbatim>\<open>None\<close>
  (\<^verbatim>\<open>self.master\<close>, \<^verbatim>\<open>self.updelay\<close>), so a token is a string or \<^verbatim>\<open>None\<close>.
\<close>

type_synonym token = "string option"

definition bool_to_string :: "bool \<Rightarrow> string" where
  "bool_to_string boolean = (if boolean then ''yes'' else ''no'')"

text \<open>
  \<^verbatim>\<open>if self.x is not None: cmd.append(key); cmd.append(self.x)\<close>, the step every
  synthesizer repeats.
\<close>

definition append_if_set :: "string \<Rightarrow> string option \<Rightarrow> token list" where
  "append_if_set key v = (case v of None \<Rightarrow> [] | Some s \<Rightarrow> [Some key, Some s])"

definition append_autoconnect :: "bool option \<Rightarrow> token list" where
  "append_autoconnect a =
     (case a of None \<Rightarrow> [] | Some b \<Rightarrow> [Some ''autoconnect'', Some (bool_to_string b)])"

text \<open>The value after \<^verbatim>\<open>con-name\<close>: the name, else the interface name, else nothing.\<close>

definition con_name_value :: "Nmcli \<Rightarrow> token list" where
  "con_name_value nm =
     (case conn_name nm of Some n \<Rightarrow> [Some n]
      | None \<Rightarrow> (case ifname nm of Some i \<Rightarrow> [Some i] | None \<Rightarrow> []))"

text \<open>The value after \<^verbatim>\<open>ifname\<close>: the interface name, else the name, else nothing.\<close>

definition ifname_value :: "Nmcli \<Rightarrow> token list" where
  "ifname_value nm =
     (case ifname nm of Some i \<Rightarrow> [Some i]
      | None \<Rightarrow> (case conn_name nm of Some n \<Rightarrow> [Some n] | None \<Rightarrow> []))"

definition create_connection_team :: "Nmcli \<Rightarrow> token list" where
  "create_connection_team nm =
     [Some (nmcli_bin nm), Some ''con'', Some ''add'', Some ''type'', Some ''team'', Some ''con-name'']
     @ con_name_value nm @ [Some ''ifname''] @ ifname_value nm
     @ append_if_set ''ip4'' (ip4 nm) @ append_if_set ''gw4'' (gw4 nm)
     @ append_if_set ''ip6'' (ip6 nm) @ append_if_set ''gw6'' (gw6 nm)
     @ append_autoconnect (autoconnect nm)"

definition modify_connection_team :: "Nmcli \<Rightarrow> token list" where
  "modify_connection_team nm =
     [Some (nmcli_bin nm), Some ''con'', Some ''mod'', conn_name nm]
     @ append_if_set ''ipv4.address'' (ip4 nm) @ append_if_set ''ipv4.gateway'' (gw4 nm)
     @ append_if_set ''ipv4.dns'' (dns4 nm)
     @ append_if_set ''ipv6.address'' (ip6 nm) @ append_if_set ''ipv6.gateway'' (gw6 nm)
     @ append_if_set ''ipv6.dns'' (dns6 nm)
     @ append_autoconnect (autoconnect nm)"

text \<open>
  The slave synthesizers append \<^verbatim>\<open>self.master\<close> when \<^verbatim>\<open>self.conn_name\<close> is not
  \<^verbatim>\<open>None\<close>, whatever the master is.
\<close>

definition create_connection_team_slave :: "Nmcli \<Rightarrow> token list" where
  "create_connection_team_slave nm =
     [Some (nmcli_bin nm), Some ''connection'', Some ''add'', Some ''type'',
      map_option type_str (type nm), Some ''con-name'']
     @ con_name_value nm @ [Some ''ifname''] @ ifname_value nm
     @ [Some ''master'']
     @ (case conn_name nm of None \<Rightarrow> [] | Some n \<Rightarrow> [master nm])"

definition modify_connection_team_slave :: "Nmcli \<Rightarrow> token list" where
  "modify_connection_team_slave nm =
     [Some (nmcli_bin nm), Some ''con'', Some ''mod'', conn_name nm,
      Some ''connection.master'', master nm]
     @ append_if_set ''802-3-ethernet.mtu'' (mtu nm)"

text \<open>
  In the bond synthesizer the four attributes after \<^verbatim>\<open>miimon\<close> are all guarded by
  \<^verbatim>\<open>self.downdelay is not None\<close>.
\<close>

definition create_connection_bond :: "Nmcli \<Rightarrow> token list" where
  "create_connection_bond nm =
     [Some (nmcli_bin nm), Some ''con'', Some ''add'', Some ''type'', Some ''bond'', Some ''con-name'']
     @ con_name_value nm @ [Some ''ifname''] @ ifname_value nm
     @ append_if_set ''mode'' (mode nm)
     @ append_if_set ''ip4'' (ip4 nm) @ append_if_set ''gw4'' (gw4 nm)
     @ append_if_set ''ip6'' (ip6 nm) @ append_if_set ''gw6'' (gw6 nm)
     @ append_autoconnect (autoconnect nm)
     @ append_if_set ''miimon'' (miimon nm)
     @ (case downdelay nm of None \<Rightarrow> [] | Some d \<Rightarrow> [Some ''downdelay'', downdelay nm])
     @ (case downdelay nm of None \<Rightarrow> [] | Some d \<Rightarrow> [Some ''updelay'', updelay nm])
     @ (case downdelay nm of None \<Rightarrow> [] | Some d \<Rightarrow> [Some ''arp-interval'', arp_interval nm])
     @ (case downdelay nm of None \<Rightarrow> [] | Some d \<Rightarrow> [Some ''arp-ip-target'', arp_ip_target nm])
     @ append_if_set ''primary'' (primary nm)"

definition modify_connection_bond :: "Nmcli \<Rightarrow> token list" where
  "modify_connection_bond nm =
     [Some (nmcli_bin nm), Some ''con'', Some ''mod'', conn_name nm]
     @ append_if_set ''ipv4.address'' (ip4 nm) @ append_if_set ''ipv4.gateway'' (gw4 nm)
     @ append_if_set ''ipv4.dns'' (dns4 nm)
     @ append_if_set ''ipv6.address'' (ip6 nm) @ append_if_set ''ipv6.gateway'' (gw6 nm)
     @ append_if_set ''ipv6.dns'' (dns6 nm)
     @ append_autoconnect (autoconnect nm)"

definition create_connection_bond_slave :: "Nmcli \<Rightarrow> token list" where
  "create_connection_bond_slave nm =
     [Some (nmcli_bin nm), Some ''connection'', Some ''add'', Some ''type'',
      Some ''bond-slave'', Some ''con-name'']
     @ con_name_value nm @ [Some ''ifname''] @ ifname_value nm
     @ [Some ''master'']
     @ (case conn_name nm of None \<Rightarrow> [] | Some n \<Rightarrow> [master nm])"

definition modify_connection_bond_slave :: "Nmcli \<Rightarrow> token list" where
  "modify_connection_bond_slave nm =
     [Some (nmcli_bin nm), Some ''con'', Some ''mod'', conn_name nm,
      Some ''connection.master'', master nm]"

text \<open>
  The ethernet synthesizers take \<^verbatim>\<open>conn_type\<close>, which the callers give as
  \<^verbatim>\<open>'ethernet'\<close> (the default) or \<^verbatim>\<open>'generic'\<close>; any other value would append no
  type word.
\<close>

definition create_connection_ethernet :: "conn_type \<Rightarrow> Nmcli \<Rightarrow> token list" where
  "create_connection_ethernet ct nm =
     [Some (nmcli_bin nm), Some ''con'', Some ''add'', Some ''type'']
     @ (if ct = Ethernet then [Some ''ethernet'']
        else if ct = Generic then [Some ''generic''] else [])
     @ [Some ''con-name'']
     @ con_name_value nm @ [Some ''ifname''] @ ifname_value nm
     @ append_if_set ''ip4'' (ip4 nm) @ append_if_set ''gw4'' (gw4 nm)
     @ append_if_set ''ip6'' (ip6 nm) @ append_if_set ''gw6'' (gw6 nm)
     @ append_autoconnect (autoconnect nm)"

definition modify_connection_ethernet :: "conn_type \<Rightarrow> Nmcli \<Rightarrow> token list" where
  "modify_connection_ethernet ct nm =
     [Some (nmcli_bin nm), Some ''con'', Some ''mod'', conn_name nm]
     @ append_if_set ''ipv4.address'' (ip4 nm) @ append_if_set ''ipv4.gateway'' (gw4 nm)
     @ append_if_set ''ipv4.dns'' (dns4 nm)
     @ append_if_set ''ipv6.address'' (ip6 nm) @ append_if_set ''ipv6.gateway'' (gw6 nm)
     @ append_if_set ''ipv6.dns'' (dns6 nm)
     @ (if ct = Ethernet then append_if_set ''802-3-ethernet.mtu'' (mtu nm) else [])
     @ append_autoconnect (autoconnect nm)"

definition create_connection_bridge :: "Nmcli \<Rightarrow> token list" where
  "create_connection_bridge nm = [Some (nmcli_bin nm)]"

definition modify_connection_bridge :: "Nmcli \<Rightarrow> token list" where
  "modify_connection_bridge nm = [Some (nmcli_bin nm)]"

definition create_connection_vlan :: "Nmcli \<Rightarrow> token list" where
  "create_connection_vlan nm = [Some (nmcli_bin nm)]"

definition modify_connection_vlan :: "Nmcli \<Rightarrow> token list" where
  "modify_connection_vlan nm = [Some (nmcli_bin nm)]"

section \<open>The collaborators: discovery and the executor\<close>

text \<open>
  \<^verbatim>\<open>module.run_command\<close> returns the triple \<^verbatim>\<open>(rc, stdout, stderr)\<close>.
\<close>

type_synonym result = "int \<times> string \<times> string"

text \<open>
  What the variable \<^verbatim>\<open>cmd\<close> of \<^verbatim>\<open>create_connection\<close> may hold, and so what
  \<^verbatim>\<open>execute_command\<close> may be given: a command list, or the triple that
  \<^verbatim>\<open>up_connection\<close> returned.
\<close>

datatype cmdval = CmdList "token list" | CmdTuple result

text \<open>Python's truth value of \<^verbatim>\<open>cmd\<close>: a list is true when it is not empty, a triple always.\<close>

fun truthy :: "cmdval \<Rightarrow> bool" where
  "truthy (CmdList xs) = (xs \<noteq> [])"
| "truthy (CmdTuple r) = True"

text \<open>
  One connection as \<^verbatim>\<open>list_connection_info\<close> reads it from the settings service:
  the \<^verbatim>\<open>id\<close>, \<^verbatim>\<open>uuid\<close> and \<^verbatim>\<open>type\<close> of its \<^verbatim>\<open>connection\<close> setting, and the
  strings \<^verbatim>\<open>connection_to_string\<close> makes of its settings, secrets merged.
\<close>

record con_config =
  con_id :: string
  con_uuid :: string
  con_type :: string
  con_settings :: "string list"

text \<open>
  The system outside the module, over a type \<open>'w\<close> of its states: the executor runs a
  command in a state and gives the triple and the next state; discovery reads the
  connections of a state, or raises the DBus exception whose text is the \<open>Inl\<close>.
  The state changes only through the executor.
\<close>

record 'w sys =
  executor :: "cmdval \<Rightarrow> 'w \<Rightarrow> result \<times> 'w"
  discover :: "'w \<Rightarrow> string + con_config list"

text \<open>The state of one run of the module: the system's state and the commands executed so far.\<close>

record 'w st =
  world :: 'w
  calls :: "cmdval list"

text \<open>The keyword arguments of \<^verbatim>\<open>fail_json\<close>.\<close>

record failure =
  f_msg :: string
  f_name :: "string option"
  f_rc :: "int option"
  f_details :: "string option"

text \<open>
  The keyword arguments of \<^verbatim>\<open>exit_json\<close>; \<open>None\<close> is a key that is not given.
\<close>

record exit_args =
  changed :: bool
  r_conn_name :: "string option"
  r_state :: "conn_state option"
  r_Exists :: "string option"
  r_Connection :: "string option"
  r_stdout :: "string option"
  r_stderr :: "string option"

text \<open>Both \<^verbatim>\<open>exit_json\<close> and \<^verbatim>\<open>fail_json\<close> end the process.\<close>

datatype outcome = Exit_json exit_args | Fail_json failure

text \<open>\<^verbatim>\<open>x is not None\<close> and \<^verbatim>\<open>x is None\<close>.\<close>

definition is_not_None :: "'a option \<Rightarrow> bool" where
  "is_not_None x = (x \<noteq> None)"

definition is_None :: "'a option \<Rightarrow> bool" where
  "is_None x = (x = None)"

text \<open>\<^verbatim>\<open>'%s' % x\<close> for a string or \<^verbatim>\<open>None\<close>.\<close>

definition py_str :: "string option \<Rightarrow> string" where
  "py_str x = (case x of None \<Rightarrow> ''None'' | Some s \<Rightarrow> s)"

definition execute_command :: "'w sys \<Rightarrow> cmdval \<Rightarrow> 'w st \<Rightarrow> result \<times> 'w st" where
  "execute_command sys cmd s =
     (case executor sys cmd (world s) of
        (r, w') \<Rightarrow> (r, \<lparr> world = w', calls = calls s @ [cmd] \<rparr>))"

section \<open>Discovery and the existence check\<close>

text \<open>An element of the flat list \<^verbatim>\<open>list_connection_info\<close> returns.\<close>

datatype con_item = ItemStr string | ItemList "string list"

fun connection_items :: "con_config list \<Rightarrow> con_item list" where
  "connection_items [] = []"
| "connection_items (c # cs) =
     [ItemStr (con_id c), ItemStr (con_uuid c), ItemStr (con_type c), ItemList (con_settings c)]
     @ connection_items cs"

definition list_connection_info :: "'w sys \<Rightarrow> 'w st \<Rightarrow> failure + con_item list" where
  "list_connection_info sys s =
     (case discover sys (world s) of
        Inl e \<Rightarrow>
          Inl \<lparr> f_msg = ''Unable to read Network Manager settings from DBus system bus: '' @ e,
                f_name = None, f_rc = None,
                f_details = Some (''Please check if NetworkManager is installed and''
                                  @ '' service network-manager is started.'') \<rparr>
      | Inr cs \<Rightarrow> Inr (connection_items cs))"

text \<open>\<^verbatim>\<open>self.conn_name == con_item\<close>: a string equals a string item with the same text only.\<close>

fun item_eq :: "string option \<Rightarrow> con_item \<Rightarrow> bool" where
  "item_eq (Some n) (ItemStr x) = (n = x)"
| "item_eq n x = False"

text \<open>
  The loop of \<^verbatim>\<open>connection_exists\<close>; falling off its end returns \<^verbatim>\<open>None\<close>, which the
  callers read as false.
\<close>

fun exists_in :: "string option \<Rightarrow> con_item list \<Rightarrow> bool" where
  "exists_in n [] = False"
| "exists_in n (con_item # rest) = (if item_eq n con_item then True else exists_in n rest)"

definition connection_exists :: "'w sys \<Rightarrow> Nmcli \<Rightarrow> 'w st \<Rightarrow> failure + bool" where
  "connection_exists sys nm s =
     (case list_connection_info sys s of
        Inl f \<Rightarrow> Inl f
      | Inr connections \<Rightarrow> Inr (exists_in (conn_name nm) connections))"

section \<open>Operations\<close>

definition down_connection :: "'w sys \<Rightarrow> Nmcli \<Rightarrow> 'w st \<Rightarrow> result \<times> 'w st" where
  "down_connection sys nm s =
     execute_command sys (CmdList [Some (nmcli_bin nm), Some ''con'', Some ''down'', conn_name nm]) s"

definition up_connection :: "'w sys \<Rightarrow> Nmcli \<Rightarrow> 'w st \<Rightarrow> result \<times> 'w st" where
  "up_connection sys nm s =
     execute_command sys (CmdList [Some (nmcli_bin nm), Some ''con'', Some ''up'', conn_name nm]) s"

definition remove_connection :: "'w sys \<Rightarrow> Nmcli \<Rightarrow> 'w st \<Rightarrow> result \<times> 'w st" where
  "remove_connection sys nm s =
     execute_command sys (CmdList [Some (nmcli_bin nm), Some ''con'', Some ''del'', conn_name nm]) s"

definition type_required :: "string \<Rightarrow> failure" where
  "type_required operation =
     \<lparr> f_msg = ''Type of device or network connection is required while performing ''
               @ [CHR 0x27] @ operation @ [CHR 0x27]
               @ '' operation. Please specify '' @ [CHR 0x27] @ ''type'' @ [CHR 0x27]
               @ '' as an argument.'',
       f_name = None, f_rc = None, f_details = None \<rparr>"

text \<open>
  The first part of \<^verbatim>\<open>create_connection\<close>: the chain over \<^verbatim>\<open>self.type\<close>. It gives the
  value of \<^verbatim>\<open>cmd\<close> at the end of the chain and the state after the commands the chain
  itself executed.
\<close>

definition create_connection_chain :: "'w sys \<Rightarrow> Nmcli \<Rightarrow> 'w st \<Rightarrow> cmdval \<times> 'w st" where
  "create_connection_chain sys nm s =
     (case type nm of
        Some Team \<Rightarrow>
          if is_not_None (dns4 nm) \<or> is_not_None (dns6 nm) then
            (case execute_command sys (CmdList (create_connection_team nm)) s of (r1, s1) \<Rightarrow>
             case execute_command sys (CmdList (modify_connection_team nm)) s1 of (r2, s2) \<Rightarrow>
             case up_connection sys nm s2 of (r3, s3) \<Rightarrow> (CmdTuple r3, s3))
          else if is_None (dns4 nm) \<or> is_None (dns6 nm) then
            (CmdList (create_connection_team nm), s)
          else (CmdList [], s)
      | Some TeamSlave \<Rightarrow>
          if is_not_None (mtu nm) then
            (case execute_command sys (CmdList (create_connection_team_slave nm)) s of (r1, s1) \<Rightarrow>
             case execute_command sys (CmdList (modify_connection_team_slave nm)) s1 of (r2, s2) \<Rightarrow>
               (CmdList (modify_connection_team_slave nm), s2))
          else (CmdList (create_connection_team_slave nm), s)
      | Some Bond \<Rightarrow>
          if is_not_None (mtu nm) \<or> is_not_None (dns4 nm) \<or> is_not_None (dns6 nm) then
            (case execute_command sys (CmdList (create_connection_bond nm)) s of (r1, s1) \<Rightarrow>
             case execute_command sys (CmdList (modify_connection_bond nm)) s1 of (r2, s2) \<Rightarrow>
             case up_connection sys nm s2 of (r3, s3) \<Rightarrow> (CmdTuple r3, s3))
          else (CmdList (create_connection_bond nm), s)
      | Some BondSlave \<Rightarrow> (CmdList (create_connection_bond_slave nm), s)
      | Some Ethernet \<Rightarrow>
          if is_not_None (mtu nm) \<or> is_not_None (dns4 nm) \<or> is_not_None (dns6 nm) then
            (case execute_command sys (CmdList (create_connection_ethernet Ethernet nm)) s of (r1, s1) \<Rightarrow>
             case execute_command sys (CmdList (modify_connection_ethernet Ethernet nm)) s1 of (r2, s2) \<Rightarrow>
             case up_connection sys nm s2 of (r3, s3) \<Rightarrow> (CmdTuple r3, s3))
          else (CmdList (create_connection_ethernet Ethernet nm), s)
      | Some Bridge \<Rightarrow> (CmdList (create_connection_bridge nm), s)
      | Some Vlan \<Rightarrow> (CmdList (create_connection_vlan nm), s)
      | Some Generic \<Rightarrow> (CmdList (create_connection_ethernet Generic nm), s)
      | None \<Rightarrow> (CmdList [], s))"

text \<open>
  \<^verbatim>\<open>create_connection\<close>: after the chain, \<^verbatim>\<open>if cmd: return self.execute_command(cmd)\<close>,
  else \<^verbatim>\<open>fail_json\<close>.
\<close>

definition create_connection :: "'w sys \<Rightarrow> Nmcli \<Rightarrow> 'w st \<Rightarrow> (failure + result) \<times> 'w st" where
  "create_connection sys nm s =
     (case create_connection_chain sys nm s of
        (cmd, s') \<Rightarrow>
          if truthy cmd then (case execute_command sys cmd s' of (r, s'') \<Rightarrow> (Inr r, s''))
          else (Inl (type_required ''create''), s'))"

text \<open>The chain of \<^verbatim>\<open>modify_connection\<close> over \<^verbatim>\<open>self.type\<close>.\<close>

definition modify_connection_cmd :: "Nmcli \<Rightarrow> token list" where
  "modify_connection_cmd nm =
     (case type nm of
        Some Team \<Rightarrow> modify_connection_team nm
      | Some TeamSlave \<Rightarrow> modify_connection_team_slave nm
      | Some Bond \<Rightarrow> modify_connection_bond nm
      | Some BondSlave \<Rightarrow> modify_connection_bond_slave nm
      | Some Ethernet \<Rightarrow> modify_connection_ethernet Ethernet nm
      | Some Bridge \<Rightarrow> modify_connection_bridge nm
      | Some Vlan \<Rightarrow> modify_connection_vlan nm
      | Some Generic \<Rightarrow> modify_connection_ethernet Generic nm
      | None \<Rightarrow> [])"

definition modify_connection :: "'w sys \<Rightarrow> Nmcli \<Rightarrow> 'w st \<Rightarrow> (failure + result) \<times> 'w st" where
  "modify_connection sys nm s =
     (if truthy (CmdList (modify_connection_cmd nm)) then
        (case execute_command sys (CmdList (modify_connection_cmd nm)) s of (r, s') \<Rightarrow> (Inr r, s'))
      else (Inl (type_required ''modify''), s))"

section \<open>The reconciler: \<^verbatim>\<open>main\<close>\<close>

definition plain_failure :: "string \<Rightarrow> failure" where
  "plain_failure m = \<lparr> f_msg = m, f_name = None, f_rc = None, f_details = None \<rparr>"

text \<open>\<^verbatim>\<open>module.exit_json(changed=True)\<close>, the exit of check mode.\<close>

definition check_mode_exit :: exit_args where
  "check_mode_exit =
     \<lparr> changed = True, r_conn_name = None, r_state = None, r_Exists = None,
       r_Connection = None, r_stdout = None, r_stderr = None \<rparr>"

text \<open>
  The end of \<^verbatim>\<open>main\<close>: \<^verbatim>\<open>changed\<close> is whether \<^verbatim>\<open>rc\<close> was ever set, and
  \<^verbatim>\<open>stdout\<close> and \<^verbatim>\<open>stderr\<close> are added when they are not empty.
\<close>

definition final_exit ::
  "Nmcli \<Rightarrow> int option \<Rightarrow> string \<Rightarrow> string \<Rightarrow> string option \<Rightarrow> string option \<Rightarrow> exit_args" where
  "final_exit nm rc out err exists_msg connection_msg =
     \<lparr> changed = is_not_None rc, r_conn_name = conn_name nm, r_state = Some (state nm),
       r_Exists = exists_msg, r_Connection = connection_msg,
       r_stdout = (if out \<noteq> [] then Some out else None),
       r_stderr = (if err \<noteq> [] then Some err else None) \<rparr>"

text \<open>The branch \<^verbatim>\<open>nmcli.state == 'absent'\<close>.\<close>

definition main_absent :: "'w sys \<Rightarrow> bool \<Rightarrow> Nmcli \<Rightarrow> 'w st \<Rightarrow> outcome \<times> 'w st" where
  "main_absent sys check_mode nm s =
     (case connection_exists sys nm s of
        Inl f \<Rightarrow> (Fail_json f, s)
      | Inr ex \<Rightarrow>
          if ex then
            (if check_mode then (Exit_json check_mode_exit, s)
             else
               (case down_connection sys nm s of (r1, s1) \<Rightarrow>
                case remove_connection sys nm s1 of ((rc, out, err), s2) \<Rightarrow>
                  if rc \<noteq> 0 then
                    (Fail_json \<lparr> f_msg = err,
                       f_name = Some (''No Connection named '' @ py_str (conn_name nm) @ '' exists''),
                       f_rc = Some rc, f_details = None \<rparr>, s2)
                  else (Exit_json (final_exit nm (Some rc) out err None None), s2)))
          else (Exit_json (final_exit nm None [] [] None None), s))"

text \<open>
  The first \<^verbatim>\<open>if\<close> of the branch \<^verbatim>\<open>nmcli.state == 'present'\<close>: on an early exit the
  outcome, else the values of \<^verbatim>\<open>(rc, out, err)\<close> and of \<^verbatim>\<open>result['Exists']\<close>.
\<close>

definition present_modify ::
  "'w sys \<Rightarrow> bool \<Rightarrow> Nmcli \<Rightarrow> bool \<Rightarrow> 'w st
     \<Rightarrow> (outcome \<times> 'w st) + ((int option \<times> string \<times> string) \<times> string option \<times> 'w st)" where
  "present_modify sys check_mode nm ex s =
     (if ex then
        (if check_mode then Inl (Exit_json check_mode_exit, s)
         else
           (case modify_connection sys nm s of
              (Inl f, s1) \<Rightarrow> Inl (Fail_json f, s1)
            | (Inr (rc, out, err), s1) \<Rightarrow>
                Inr ((Some rc, out, err),
                     Some ''Connections do exist so we are modifying them'', s1)))
      else Inr ((None, [], []), None, s))"

text \<open>
  The second \<^verbatim>\<open>if\<close> of that branch, which asks \<^verbatim>\<open>connection_exists\<close> again, and the
  test of \<^verbatim>\<open>rc\<close> after it.
\<close>

definition present_create ::
  "'w sys \<Rightarrow> bool \<Rightarrow> Nmcli \<Rightarrow> (int option \<times> string \<times> string) \<Rightarrow> string option \<Rightarrow> 'w st
     \<Rightarrow> outcome \<times> 'w st" where
  "present_create sys check_mode nm r1 exists_msg s1 =
     (case connection_exists sys nm s1 of
        Inl f \<Rightarrow> (Fail_json f, s1)
      | Inr ex \<Rightarrow>
          (case (if \<not> ex then
                   (if check_mode then Inl (Exit_json check_mode_exit, s1)
                    else
                      (case create_connection sys nm s1 of
                         (Inl f, s2) \<Rightarrow> Inl (Fail_json f, s2)
                       | (Inr (rc, out, err), s2) \<Rightarrow>
                           Inr ((Some rc, out, err),
                                Some (''Connection '' @ py_str (conn_name nm) @ '' of Type ''
                                      @ py_str (map_option type_str (type nm)) @ '' is being added''),
                                s2)))
                 else Inr (r1, None, s1)) of
             Inl early \<Rightarrow> early
           | Inr ((rc, out, err), connection_msg, s2) \<Rightarrow>
               if is_not_None rc \<and> rc \<noteq> Some 0 then
                 (Fail_json \<lparr> f_msg = err, f_name = conn_name nm, f_rc = rc, f_details = None \<rparr>, s2)
               else (Exit_json (final_exit nm rc out err exists_msg connection_msg), s2)))"

definition main_present :: "'w sys \<Rightarrow> bool \<Rightarrow> Nmcli \<Rightarrow> 'w st \<Rightarrow> outcome \<times> 'w st" where
  "main_present sys check_mode nm s =
     (case connection_exists sys nm s of
        Inl f \<Rightarrow> (Fail_json f, s)
      | Inr ex \<Rightarrow>
          (case present_modify sys check_mode nm ex s of
             Inl early \<Rightarrow> early
           | Inr (r1, exists_msg, s1) \<Rightarrow> present_create sys check_mode nm r1 exists_msg s1))"

text \<open>
  \<^verbatim>\<open>main\<close>, from the construction of the \<^verbatim>\<open>Nmcli\<close> object on: the checks, then the
  branch of the state. It gives how the process ends and the final state, whose
  \<open>calls\<close> are the commands given to the executor, in order.
\<close>

definition main :: "'w sys \<Rightarrow> bool \<Rightarrow> string \<Rightarrow> params \<Rightarrow> 'w \<Rightarrow> outcome \<times> 'w st" where
  "main sys check_mode bin p w =
     (let nm = init bin p; s = \<lparr> world = w, calls = [] \<rparr> in
      if is_None (conn_name nm) then
        (Fail_json (plain_failure ''Please specify a name for the connection''), s)
      else if type nm = Some TeamSlave \<and> is_None (master nm) then
        (Fail_json (plain_failure ''Please specify a name for the master''), s)
      else if type nm = Some TeamSlave \<and> is_None (ifname nm) then
        (Fail_json (plain_failure ''Please specify an interface name for the connection''), s)
      else (case state nm of
              Absent \<Rightarrow> main_absent sys check_mode nm s
            | Present \<Rightarrow> main_present sys check_mode nm s))"

section \<open>Example specifications and systems\<close>

text \<open>
  The example of the module's documentation: an ethernet connection \<^verbatim>\<open>my-eth1\<close> with a
  static IPv4 address and gateway.
\<close>

definition eth_example :: params where
  "eth_example =
     (default_params ''my-eth1'' Present)
       \<lparr> p_type := Some Ethernet, p_ip4 := Some ''192.0.2.100/24'', p_gw4 := Some ''192.0.2.1'' \<rparr>"

text \<open>
  A system whose state is the list of its connections, and whose executor accepts every
  command, prints nothing and leaves the connections as they are.
\<close>

definition quiet_sys :: "con_config list sys" where
  "quiet_sys = \<lparr> executor = (\<lambda>cmd w. ((0, [], []), w)), discover = (\<lambda>w. Inr w) \<rparr>"

definition eth0_config :: con_config where
  "eth0_config =
     \<lparr> con_id = ''eth0'', con_uuid = ''5fb06bd0-0bb0-7ffb-45f1-d6edd65f3e03'',
       con_type = ''802-3-ethernet'', con_settings = [] \<rparr>"

text \<open>The same example with the two IPv4 DNS servers of the documentation added.\<close>

definition eth_dns_example :: params where
  "eth_dns_example = eth_example \<lparr> p_dns4 := Some [''192.0.2.53'', ''198.51.100.53''] \<rparr>"


definition generic_dns_example :: params where
  "generic_dns_example =
     (default_params ''gen0'' Present) \<lparr> p_type := Some Generic, p_dns4 := Some [''192.0.2.53''] \<rparr>"

definition team_slave_mtu_example :: params where
  "team_slave_mtu_example =
     (default_params ''team-em1'' Present)
       \<lparr> p_type := Some TeamSlave, p_ifname := Some ''em1'', p_master := Some ''team0'',
         p_mtu := Some ''9000'' \<rparr>"

definition bond_downdelay_example :: params where
  "bond_downdelay_example =
     (default_params ''bond0'' Present) \<lparr> p_type := Some Bond, p_downdelay := Some ''100'' \<rparr>"

text \<open>A bond slave for the interface \<^verbatim>\<open>em1\<close> whose master is not given.\<close>

definition bond_slave_example :: params where
  "bond_slave_example =
     (default_params ''bond-em1'' Present) \<lparr> p_type := Some BondSlave, p_ifname := Some ''em1'' \<rparr>"


definition team0_config :: con_config where
  "team0_config =
     \<lparr> con_id = ''team0'', con_uuid = ''702de3eb-2e80-897c-fd52-cd0494dd8123'',
       con_type = ''team'', con_settings = [] \<rparr>"

text \<open>
  A system in which taking \<^verbatim>\<open>eth0\<close> down fails, and every other command succeeds and
  leaves no connection.
\<close>

definition down_fails_sys :: "con_config list sys" where
  "down_fails_sys =
     \<lparr> executor = (\<lambda>cmd w.
         if cmd = CmdList (map Some [''/usr/bin/nmcli'', ''con'', ''down'', ''eth0''])
         then ((10, [], ''Error: eth0 is not an active connection.''), w)
         else ((0, [], []), [])),
       discover = (\<lambda>w. Inr w) \<rparr>"

section \<open>Notions used in the statements\<close>

text \<open>
  The three checks at the start of \<^verbatim>\<open>main\<close> let the run through: a name is given, and
  a team slave has a master and an interface name.
\<close>

definition checks_pass :: "params \<Rightarrow> bool" where
  "checks_pass p \<longleftrightarrow>
     p_conn_name p \<noteq> None \<and>
     (p_type p = Some TeamSlave \<longrightarrow> p_master p \<noteq> None \<and> p_ifname p \<noteq> None)"



text \<open>
  The tests of \<^verbatim>\<open>create_connection\<close> under which its chain executes a create and a
  modify itself: one per type that has such a test.
\<close>

definition two_phase :: "Nmcli \<Rightarrow> bool" where
  "two_phase nm =
     (case type nm of
        Some Team \<Rightarrow> is_not_None (dns4 nm) \<or> is_not_None (dns6 nm)
      | Some TeamSlave \<Rightarrow> is_not_None (mtu nm)
      | Some Bond \<Rightarrow> is_not_None (mtu nm) \<or> is_not_None (dns4 nm) \<or> is_not_None (dns6 nm)
      | Some Ethernet \<Rightarrow> is_not_None (mtu nm) \<or> is_not_None (dns4 nm) \<or> is_not_None (dns6 nm)
      | _ \<Rightarrow> False)"


section \<open>The existence check\<close>

text \<open>
  The loop of \<^verbatim>\<open>connection_exists\<close> runs over the flat list, so the name is compared
  with the id, the uuid and the type of every connection.
\<close>

lemma exists_in_iff:
  "exists_in (Some n) (connection_items cs) \<longleftrightarrow>
     (\<exists>c \<in> set cs. con_id c = n \<or> con_uuid c = n \<or> con_type c = n)"
  by (induction cs) auto

text \<open>
  Claim C4. The existence check is to hold exactly when some connection's name equals the
  wanted name, never because of a uuid or a type. In the code, for the wanted name
  \<^verbatim>\<open>team\<close> and a system whose only connection is \<^verbatim>\<open>team0\<close> of type \<^verbatim>\<open>team\<close>, the
  check holds: the name equals the type of \<^verbatim>\<open>team0\<close>.
\<close>

theorem c4_name_equal_to_type_exists:
  "connection_exists quiet_sys (init ''/usr/bin/nmcli'' (default_params ''team'' Present))
     \<lparr> world = [team0_config], calls = [] \<rparr> = Inr True"
  by (simp add: connection_exists_def list_connection_info_def quiet_sys_def init_def
      default_params_def team0_config_def)

section \<open>Basic facts about the run\<close>

lemma init_simps:
  "conn_name (init bin p) = p_conn_name p" "type (init bin p) = p_type p"
  "state (init bin p) = p_state p" "master (init bin p) = p_master p"
  "ifname (init bin p) = p_ifname p" "nmcli_bin (init bin p) = bin"
  by (simp_all add: init_def)

lemma main_after_checks:
  "checks_pass p \<Longrightarrow>
   main sys cm bin p w =
     (case p_state p of
        Absent \<Rightarrow> main_absent sys cm (init bin p) \<lparr> world = w, calls = [] \<rparr>
      | Present \<Rightarrow> main_present sys cm (init bin p) \<lparr> world = w, calls = [] \<rparr>)"
  by (auto simp add: main_def Let_def checks_pass_def init_simps is_None_def)



text \<open>The executed commands only grow.\<close>

lemma execute_command_snd:
  "execute_command sys c s = (r, s') \<Longrightarrow> calls s' = calls s @ [c]"
  by (auto simp add: execute_command_def split: prod.splits)

lemma up_connection_snd:
  "up_connection sys nm s = (r, s') \<Longrightarrow>
   calls s' = calls s @ [CmdList [Some (nmcli_bin nm), Some ''con'', Some ''up'', conn_name nm]]"
  by (simp add: up_connection_def execute_command_snd)




text \<open>The definitions a run on a concrete specification and system unfolds.\<close>

lemmas eval_defs =
  main_def Let_def init_def init_dns4_def default_params_def is_None_def is_not_None_def
  main_present_def main_absent_def present_modify_def present_create_def
  connection_exists_def list_connection_info_def quiet_sys_def
  create_connection_def create_connection_chain_def modify_connection_def
  modify_connection_cmd_def execute_command_def up_connection_def down_connection_def
  remove_connection_def final_exit_def py_str_def
  con_name_value_def ifname_value_def append_if_set_def append_autoconnect_def

section \<open>The documented ethernet example\<close>

lemma eth_example_tokens:
  "create_connection_ethernet Ethernet (init bin eth_example) =
     Some bin # map Some [''con'', ''add'', ''type'', ''ethernet'', ''con-name'', ''my-eth1'',
       ''ifname'', ''my-eth1'', ''ip4'', ''192.0.2.100/24'', ''gw4'', ''192.0.2.1'']"
  by (simp add: create_connection_ethernet_def init_def eth_example_def default_params_def
      con_name_value_def ifname_value_def append_if_set_def append_autoconnect_def)

text \<open>
  Claim C7. For the specification
  \<^verbatim>\<open>{name: my-eth1, type: ethernet, ip4: 192.0.2.100/24, gw4: 192.0.2.1, state: present}\<close>
  and a system in which the existence check finds nothing (no connection has the id,
  uuid or type \<^verbatim>\<open>my-eth1\<close>), the create command is the nmcli binary followed by
  \<^verbatim>\<open>con add type ethernet con-name my-eth1 ifname my-eth1 ip4 192.0.2.100/24 gw4 192.0.2.1\<close>;
  it is the only command given to the executor, so there is no modify phase; and when it
  exits with code 0 the module exits with \<^verbatim>\<open>changed=True\<close>, while any other exit code is
  reported as a failure with that code and the command's stderr.
\<close>

theorem c7_ethernet_example:
  assumes "discover sys w = Inr cs"
    and "\<forall>c \<in> set cs. con_id c \<noteq> ''my-eth1'' \<and> con_uuid c \<noteq> ''my-eth1'' \<and> con_type c \<noteq> ''my-eth1''"
    and "executor sys (CmdList (create_connection_ethernet Ethernet (init bin eth_example))) w
           = ((rc, out, err), w')"
  shows "create_connection_ethernet Ethernet (init bin eth_example) =
           Some bin # map Some [''con'', ''add'', ''type'', ''ethernet'', ''con-name'', ''my-eth1'',
             ''ifname'', ''my-eth1'', ''ip4'', ''192.0.2.100/24'', ''gw4'', ''192.0.2.1'']
       \<and> calls (snd (main sys False bin eth_example w)) =
           [CmdList (create_connection_ethernet Ethernet (init bin eth_example))]
       \<and> fst (main sys False bin eth_example w) =
           (if rc \<noteq> 0 then
              Fail_json \<lparr> f_msg = err, f_name = Some ''my-eth1'', f_rc = Some rc, f_details = None \<rparr>
            else
              Exit_json \<lparr> changed = True, r_conn_name = Some ''my-eth1'', r_state = Some Present,
                r_Exists = None,
                r_Connection = Some ''Connection my-eth1 of Type ethernet is being added'',
                r_stdout = (if out \<noteq> [] then Some out else None),
                r_stderr = (if err \<noteq> [] then Some err else None) \<rparr>)"
proof -
  let ?nm = "init bin eth_example"
  have ne: "\<not> exists_in (Some ''my-eth1'') (connection_items cs)"
    using assms(2) by (simp add: exists_in_iff)
  have nm: "conn_name ?nm = Some ''my-eth1''" "type ?nm = Some Ethernet" "mtu ?nm = None"
    "dns4 ?nm = None" "dns6 ?nm = None" "state ?nm = Present"
    by (simp_all add: init_def eth_example_def default_params_def init_dns4_def)
  have ex: "connection_exists sys ?nm \<lparr> world = w, calls = [] \<rparr> = Inr False"
    using assms(1) ne by (simp add: connection_exists_def list_connection_info_def nm)
  have cr: "create_connection sys ?nm \<lparr> world = w, calls = [] \<rparr> =
      (Inr (rc, out, err),
       \<lparr> world = w', calls = [CmdList (create_connection_ethernet Ethernet ?nm)] \<rparr>)"
    using assms(3)
    by (simp add: create_connection_def create_connection_chain_def nm is_not_None_def
        execute_command_def create_connection_ethernet_def)
  have m: "main sys False bin eth_example w =
      (if rc \<noteq> 0 then
         Fail_json \<lparr> f_msg = err, f_name = Some ''my-eth1'', f_rc = Some rc, f_details = None \<rparr>
       else
         Exit_json \<lparr> changed = True, r_conn_name = Some ''my-eth1'', r_state = Some Present,
           r_Exists = None,
           r_Connection = Some ''Connection my-eth1 of Type ethernet is being added'',
           r_stdout = (if out \<noteq> [] then Some out else None),
           r_stderr = (if err \<noteq> [] then Some err else None) \<rparr>,
       \<lparr> world = w', calls = [CmdList (create_connection_ethernet Ethernet ?nm)] \<rparr>)"
    unfolding main_def Let_def
    by (simp add: nm is_None_def main_present_def ex present_modify_def present_create_def cr
        is_not_None_def final_exit_def py_str_def)
  show ?thesis using m eth_example_tokens by simp
qed

text \<open>
  The example run on a system that has the connection \<^verbatim>\<open>eth0\<close> only and accepts every
  command.
\<close>

theorem c7_ethernet_example_witness:
  "calls (snd (main quiet_sys False ''/usr/bin/nmcli'' eth_example [eth0_config])) =
     [CmdList (map Some [''/usr/bin/nmcli'', ''con'', ''add'', ''type'', ''ethernet'',
        ''con-name'', ''my-eth1'', ''ifname'', ''my-eth1'', ''ip4'', ''192.0.2.100/24'',
        ''gw4'', ''192.0.2.1''])]
   \<and> fst (main quiet_sys False ''/usr/bin/nmcli'' eth_example [eth0_config]) =
       Exit_json \<lparr> changed = True, r_conn_name = Some ''my-eth1'', r_state = Some Present,
         r_Exists = None,
         r_Connection = Some ''Connection my-eth1 of Type ethernet is being added'',
         r_stdout = None, r_stderr = None \<rparr>"
proof -
  have d: "discover quiet_sys [eth0_config] = Inr [eth0_config]"
    by (simp add: quiet_sys_def)
  have n: "\<forall>c \<in> set [eth0_config].
      con_id c \<noteq> ''my-eth1'' \<and> con_uuid c \<noteq> ''my-eth1'' \<and> con_type c \<noteq> ''my-eth1''"
    by (simp add: eth0_config_def)
  have e: "executor quiet_sys
      (CmdList (create_connection_ethernet Ethernet (init ''/usr/bin/nmcli'' eth_example)))
      [eth0_config] = ((0, [], []), [eth0_config])"
    by (simp add: quiet_sys_def)
  show ?thesis
    using c7_ethernet_example [OF d n e] by simp
qed

section \<open>Creating a connection: phases and commands\<close>

text \<open>
  The chain of \<^verbatim>\<open>create_connection\<close> executes nothing itself exactly when the test of
  the type fails or the type has no test (bond slave, generic, bridge, vlan, none); else it
  executes the create and the modify, and the activation too unless the type is team slave.
\<close>

lemma create_phase_policy:
  "(calls (snd (create_connection_chain sys nm s)) = calls s) = (\<not> two_phase nm)"
  "two_phase nm \<Longrightarrow>
     length (calls (snd (create_connection_chain sys nm s))) =
       length (calls s) + (if type nm = Some TeamSlave then 2 else 3)"
proof -
  show "(calls (snd (create_connection_chain sys nm s)) = calls s) = (\<not> two_phase nm)"
  proof (cases "type nm")
    case None
    then show ?thesis by (simp add: create_connection_chain_def two_phase_def)
  next
    case (Some t)
    then show ?thesis
      by (cases t)
        (auto simp add: create_connection_chain_def two_phase_def is_None_def is_not_None_def
          split: prod.splits dest!: execute_command_snd up_connection_snd)
  qed
  show "two_phase nm \<Longrightarrow>
     length (calls (snd (create_connection_chain sys nm s))) =
       length (calls s) + (if type nm = Some TeamSlave then 2 else 3)"
  proof (cases "type nm")
    case None
    assume "two_phase nm"
    with None show ?thesis by (simp add: two_phase_def)
  next
    case (Some t)
    assume "two_phase nm"
    with Some show ?thesis
      by (cases t)
        (auto simp add: create_connection_chain_def two_phase_def is_None_def is_not_None_def
          split: prod.splits dest!: execute_command_snd up_connection_snd)
  qed
qed

text \<open>
  Claim C1. The create of a generic connection is to be two-phase when the MTU or a DNS
  list is set, as the create of an ethernet connection is. In the code, the run for a
  generic connection \<^verbatim>\<open>gen0\<close> with \<^verbatim>\<open>dns4: [192.0.2.53]\<close> on a system without
  connections gives the executor one command, the create, which has no DNS; no modify and
  no activation follow.
\<close>

theorem c1_generic_single_phase:
  "calls (snd (main quiet_sys False ''/usr/bin/nmcli'' generic_dns_example [])) =
     [CmdList (map Some [''/usr/bin/nmcli'', ''con'', ''add'', ''type'', ''generic'',
        ''con-name'', ''gen0'', ''ifname'', ''gen0''])]"
  by (simp add: eval_defs generic_dns_example_def create_connection_ethernet_def)

text \<open>
  Claim C2. A two-phase create is to give the executor the create command, the modify
  command and an activation, and nothing else. In the code, the run for the documented
  ethernet connection with two IPv4 DNS servers gives the executor four values: the
  create, the modify, \<^verbatim>\<open>con up\<close>, and then the triple that \<^verbatim>\<open>con up\<close> returned, as if
  it were a command. The run for a team slave with an MTU gives the create, the modify and
  the same modify again, and no activation.
\<close>

theorem c2_two_phase_calls:
  "calls (snd (main quiet_sys False ''/usr/bin/nmcli'' eth_dns_example [])) =
     [CmdList (map Some [''/usr/bin/nmcli'', ''con'', ''add'', ''type'', ''ethernet'',
        ''con-name'', ''my-eth1'', ''ifname'', ''my-eth1'', ''ip4'', ''192.0.2.100/24'',
        ''gw4'', ''192.0.2.1'']),
      CmdList (map Some [''/usr/bin/nmcli'', ''con'', ''mod'', ''my-eth1'',
        ''ipv4.address'', ''192.0.2.100/24'', ''ipv4.gateway'', ''192.0.2.1'',
        ''ipv4.dns'', ''192.0.2.53 198.51.100.53'']),
      CmdList (map Some [''/usr/bin/nmcli'', ''con'', ''up'', ''my-eth1'']),
      CmdTuple (0, [], [])]
   \<and> calls (snd (main quiet_sys False ''/usr/bin/nmcli'' team_slave_mtu_example [])) =
     [CmdList (map Some [''/usr/bin/nmcli'', ''connection'', ''add'', ''type'', ''team-slave'',
        ''con-name'', ''team-em1'', ''ifname'', ''em1'', ''master'', ''team0'']),
      CmdList (map Some [''/usr/bin/nmcli'', ''con'', ''mod'', ''team-em1'',
        ''connection.master'', ''team0'', ''802-3-ethernet.mtu'', ''9000'']),
      CmdList (map Some [''/usr/bin/nmcli'', ''con'', ''mod'', ''team-em1'',
        ''connection.master'', ''team0'', ''802-3-ethernet.mtu'', ''9000''])]"
  by (simp add: eval_defs eth_dns_example_def eth_example_def team_slave_mtu_example_def
      create_connection_ethernet_def modify_connection_ethernet_def
      create_connection_team_slave_def modify_connection_team_slave_def)

text \<open>
  Claim C3. A synthesized command is to hold the key and value of an attribute exactly
  when the attribute is set, and nothing for an attribute that is not. In the code, the
  create command of a bond with \<^verbatim>\<open>downdelay: 100\<close> and no \<^verbatim>\<open>updelay\<close>,
  \<^verbatim>\<open>arp_interval\<close> or \<^verbatim>\<open>arp_ip_target\<close> holds the keys of these three, each followed
  by \<^verbatim>\<open>None\<close>; and the create command of a bond slave without a master ends with the key
  \<^verbatim>\<open>master\<close> and \<^verbatim>\<open>None\<close>.
\<close>

theorem c3_bond_null_fields_emitted:
  "create_connection_bond (init ''/usr/bin/nmcli'' bond_downdelay_example) =
     map Some [''/usr/bin/nmcli'', ''con'', ''add'', ''type'', ''bond'', ''con-name'', ''bond0'',
       ''ifname'', ''bond0'', ''mode'', ''balance-rr'', ''downdelay'', ''100'']
     @ [Some ''updelay'', None, Some ''arp-interval'', None, Some ''arp-ip-target'', None]
   \<and> create_connection_bond_slave (init ''/usr/bin/nmcli'' bond_slave_example) =
     map Some [''/usr/bin/nmcli'', ''connection'', ''add'', ''type'', ''bond-slave'',
       ''con-name'', ''bond-em1'', ''ifname'', ''em1'', ''master''] @ [None]"
  by (simp add: create_connection_bond_def create_connection_bond_slave_def init_def
      bond_downdelay_example_def bond_slave_example_def default_params_def
      con_name_value_def ifname_value_def append_if_set_def append_autoconnect_def)

text \<open>The check that a team slave has a master: the run fails before anything is executed.\<close>

lemma team_slave_without_master:
  assumes "p_conn_name p \<noteq> None" and "p_type p = Some TeamSlave" and "p_master p = None"
  shows "main sys cm bin p w =
           (Fail_json (plain_failure ''Please specify a name for the master''),
            \<lparr> world = w, calls = [] \<rparr>)"
  using assms by (auto simp add: main_def Let_def init_simps is_None_def)

text \<open>
  Claim C5. A slave without a master is to be refused with a configuration error before
  any command is executed. In the code, the run for a bond slave \<^verbatim>\<open>bond-em1\<close> without a
  master on a system without connections executes the create command, whose last token is
  \<^verbatim>\<open>None\<close>, and exits with \<^verbatim>\<open>changed=True\<close>.
\<close>

theorem c5_bond_slave_without_master:
  "main quiet_sys False ''/usr/bin/nmcli'' bond_slave_example [] =
     (Exit_json \<lparr> changed = True, r_conn_name = Some ''bond-em1'', r_state = Some Present,
        r_Exists = None,
        r_Connection = Some ''Connection bond-em1 of Type bond-slave is being added'',
        r_stdout = None, r_stderr = None \<rparr>,
      \<lparr> world = [],
        calls = [CmdList (map Some [''/usr/bin/nmcli'', ''connection'', ''add'', ''type'',
                   ''bond-slave'', ''con-name'', ''bond-em1'', ''ifname'', ''em1'', ''master'']
                 @ [None])] \<rparr>)"
  by (simp add: eval_defs bond_slave_example_def create_connection_bond_slave_def)

section \<open>DNS servers in a modify command\<close>














section \<open>Removing a connection\<close>

text \<open>
  Claim C10. When the state is \<^verbatim>\<open>absent\<close>, the existence check holds and the module
  does not run in check mode, the commands executed are \<^verbatim>\<open>con down\<close> and then
  \<^verbatim>\<open>con del\<close>, and how the run ends is decided by the triple of \<^verbatim>\<open>con del\<close> alone:
  a failure with its exit code and stderr when the code is not 0, and otherwise an exit with
  \<^verbatim>\<open>changed=True\<close> and its stdout and stderr. The triple \<open>r1\<close> of \<^verbatim>\<open>con down\<close>
  occurs nowhere in the outcome.
\<close>

theorem c10_deactivate_result_discarded:
  assumes "p_state p = Absent" and "checks_pass p"
    and "connection_exists sys (init bin p) \<lparr> world = w, calls = [] \<rparr> = Inr True"
    and "executor sys (CmdList [Some bin, Some ''con'', Some ''down'', p_conn_name p]) w = (r1, w1)"
    and "executor sys (CmdList [Some bin, Some ''con'', Some ''del'', p_conn_name p]) w1
           = ((rc, out, err), w2)"
  shows "main sys False bin p w =
           (if rc \<noteq> 0 then
              Fail_json \<lparr> f_msg = err,
                f_name = Some (''No Connection named '' @ py_str (p_conn_name p) @ '' exists''),
                f_rc = Some rc, f_details = None \<rparr>
            else
              Exit_json \<lparr> changed = True, r_conn_name = p_conn_name p, r_state = Some Absent,
                r_Exists = None, r_Connection = None,
                r_stdout = (if out \<noteq> [] then Some out else None),
                r_stderr = (if err \<noteq> [] then Some err else None) \<rparr>,
            \<lparr> world = w2,
              calls = [CmdList [Some bin, Some ''con'', Some ''down'', p_conn_name p],
                       CmdList [Some bin, Some ''con'', Some ''del'', p_conn_name p]] \<rparr>)"
  using assms
  by (simp add: main_after_checks main_absent_def down_connection_def remove_connection_def
      execute_command_def init_simps final_exit_def is_not_None_def)

text \<open>
  Removing \<^verbatim>\<open>eth0\<close> on a system where \<^verbatim>\<open>con down\<close> fails with code 10 and
  \<^verbatim>\<open>con del\<close> succeeds: the run succeeds with \<^verbatim>\<open>changed=True\<close>, and neither the code
  nor the message of \<^verbatim>\<open>con down\<close> is reported.
\<close>

theorem c10_deactivate_result_discarded_witness:
  "main down_fails_sys False ''/usr/bin/nmcli'' (default_params ''eth0'' Absent) [eth0_config] =
     (Exit_json \<lparr> changed = True, r_conn_name = Some ''eth0'', r_state = Some Absent,
        r_Exists = None, r_Connection = None, r_stdout = None, r_stderr = None \<rparr>,
      \<lparr> world = [],
        calls = [CmdList (map Some [''/usr/bin/nmcli'', ''con'', ''down'', ''eth0'']),
                 CmdList (map Some [''/usr/bin/nmcli'', ''con'', ''del'', ''eth0''])] \<rparr>)"
proof -
  let ?p = "default_params ''eth0'' Absent"
  have 1: "p_state ?p = Absent" by (simp add: default_params_def)
  have 2: "checks_pass ?p" by (simp add: checks_pass_def default_params_def)
  have 3: "connection_exists down_fails_sys (init ''/usr/bin/nmcli'' ?p)
      \<lparr> world = [eth0_config], calls = [] \<rparr> = Inr True"
    by (simp add: connection_exists_def list_connection_info_def down_fails_sys_def init_simps
        default_params_def eth0_config_def)
  have 4: "executor down_fails_sys
      (CmdList [Some ''/usr/bin/nmcli'', Some ''con'', Some ''down'', p_conn_name ?p]) [eth0_config]
      = ((10, [], ''Error: eth0 is not an active connection.''), [eth0_config])"
    by (simp add: down_fails_sys_def default_params_def)
  have 5: "executor down_fails_sys
      (CmdList [Some ''/usr/bin/nmcli'', Some ''con'', Some ''del'', p_conn_name ?p]) [eth0_config]
      = ((0, [], []), [])"
    by (simp add: down_fails_sys_def default_params_def)
  show ?thesis
    using c10_deactivate_result_discarded [OF 1 2 3 4 5]
    by (simp add: default_params_def)
qed

section \<open>Modifying an existing connection\<close>




section \<open>Check mode\<close>










end
